theory Spec2Isabelle
  imports Main "HOL-Library.Word"
begin

unbundle bit_operations_syntax

section \<open>The RCON packet codec of mc-rcon.go\<close>

text \<open>
  Go's \<open>byte\<close> is an 8-bit word and \<open>int32\<close> a 32-bit word whose arithmetic wraps;
  \<open>sint\<close> reads an \<open>int32\<close> as the signed value Go uses for an index.  A Go
  \<open>string\<close> is a sequence of bytes, so payloads, passwords and commands are byte
  lists.
\<close>

type_synonym byte = "8 word"
type_synonym int32 = "32 word"

definition RESPONSETYPE :: int32 where
  "RESPONSETYPE = 0"

definition COMMANDTYPE :: int32 where
  "COMMANDTYPE = 2"

definition LOGINTYPE :: int32 where
  "LOGINTYPE = 3"

definition MAXRECVSIZE :: nat where
  "MAXRECVSIZE = 4110"

record rconPacket =
  requestID :: int32
  packetType :: int32
  payload :: "byte list"

subsection \<open>encoding/binary, little endian\<close>

text \<open>
  \<open>binary.Write(w, binary.LittleEndian, v)\<close> for an \<open>int32\<close> appends the four bytes
  that \<open>LittleEndian.PutUint32\<close> stores: \<open>byte(v)\<close>, \<open>byte(v >> 8)\<close>,
  \<open>byte(v >> 16)\<close>, \<open>byte(v >> 24)\<close>.
\<close>

definition putUint32 :: "int32 \<Rightarrow> byte list" where
  "putUint32 v =
     [ucast v, ucast (drop_bit 8 v), ucast (drop_bit 16 v), ucast (drop_bit 24 v)]"

text \<open>
  \<open>LittleEndian.Uint32(b)\<close> is
  \<open>uint32(b[0]) | uint32(b[1])<<8 | uint32(b[2])<<16 | uint32(b[3])<<24\<close>.
  It is only ever applied to the four bytes that \<open>io.ReadFull\<close> delivered.
\<close>

definition uint32le :: "byte list \<Rightarrow> int32" where
  "uint32le b =
     ucast (b ! 0) OR push_bit 8 (ucast (b ! 1)) OR
     push_bit 16 (ucast (b ! 2)) OR push_bit 24 (ucast (b ! 3))"

text \<open>
  \<open>binary.Read(reader, binary.LittleEndian, &v)\<close> on a \<open>bytes.Reader\<close> with the
  unread bytes \<open>r\<close>: \<open>io.ReadFull\<close> asks for four bytes.  When they are there, they
  are consumed and decoded into \<open>v\<close>.  When fewer are left, the reader is drained, the
  call returns an error (which \<open>parsePacket\<close> drops) and \<open>v\<close> keeps its old value.
\<close>

definition binaryRead :: "byte list \<Rightarrow> int32 \<Rightarrow> int32 \<times> byte list" where
  "binaryRead r v = (if 4 \<le> length r then (uint32le (take 4 r), drop 4 r) else (v, []))"

subsection \<open>serialize\<close>

text \<open>
  \<open>packetSize := int32(4 + 4 + len(rp.payload) + 2)\<close> converts an \<open>int\<close> to
  \<open>int32\<close> by truncation.  Then size, request id and type are written little endian,
  the payload bytes as they are, and two zero bytes.
\<close>

definition serialize :: "rconPacket \<Rightarrow> byte list" where
  "serialize rp =
     (let packetSize = (word_of_nat (4 + 4 + length (payload rp) + 2) :: int32) in
      putUint32 packetSize @ putUint32 (requestID rp) @ putUint32 (packetType rp) @
      payload rp @ [0, 0])"

text \<open>
  The wire layout is stated against the usual numeric reading of little endian: the
  four base-256 digits of a number, least significant digit first.
\<close>

definition littleEndian4 :: "nat \<Rightarrow> nat list" where
  "littleEndian4 n =
     [n mod 256, n div 256 mod 256, n div 65536 mod 256, n div 16777216 mod 256]"

subsection \<open>Slices and parsePacket\<close>

text \<open>
  A Go slice has a length and a capacity.  \<open>elems\<close> are the \<open>len\<close> bytes that
  indexing and a \<open>bytes.Reader\<close> see; \<open>spare\<close> is what the backing array holds
  between \<open>len\<close> and \<open>cap\<close>.  A slice expression \<open>data[low : high]\<close> on a slice
  is in range when \<open>0 \<le> low \<le> high \<le> cap(data)\<close>, so it can reach into
  \<open>spare\<close>; out of range it panics at run time.
\<close>

record slice =
  elems :: "byte list"
  spare :: "byte list"

datatype panic = SliceBoundsOutOfRange

definition sliceExpr :: "slice \<Rightarrow> int \<Rightarrow> int \<Rightarrow> panic + byte list" where
  "sliceExpr data low high =
     (if 0 \<le> low \<and> low \<le> high \<and> high \<le> int (length (elems data) + length (spare data))
      then Inr (take (nat high - nat low) (drop (nat low) (elems data @ spare data)))
      else Inl SliceBoundsOutOfRange)"

text \<open>
  \<open>parsePacket\<close> reads the three header fields from a \<open>bytes.Reader\<close> over
  \<open>data\<close>, each starting from Go's zero value, and then takes
  \<open>data[12 : packetSize+2]\<close>, where \<open>packetSize+2\<close> is an \<open>int32\<close> sum.
  \<open>declaredSize\<close> is the \<open>packetSize\<close> that the first read leaves, and
  \<open>payloadEnd\<close> the upper index \<open>packetSize+2\<close> as Go evaluates it.
\<close>

definition declaredSize :: "byte list \<Rightarrow> int32" where
  "declaredSize bs = fst (binaryRead bs 0)"

definition payloadEnd :: "byte list \<Rightarrow> int" where
  "payloadEnd bs = sint (declaredSize bs + 2)"

definition parsePacket :: "slice \<Rightarrow> panic + rconPacket" where
  "parsePacket data =
     (let (packetSize, r1) = binaryRead (elems data) 0;
          (rid, r2) = binaryRead r1 0;
          (ptype, r3) = binaryRead r2 0
      in case sliceExpr data 12 (sint (packetSize + 2)) of
           Inl p \<Rightarrow> Inl p
         | Inr s \<Rightarrow> Inr \<lparr>requestID = rid, packetType = ptype, payload = s\<rparr>)"

definition makeLoginPacket :: "byte list \<Rightarrow> int32 \<Rightarrow> byte list" where
  "makeLoginPacket password rid =
     serialize \<lparr>requestID = rid, packetType = LOGINTYPE, payload = password\<rparr>"

definition makeCommandPacket :: "byte list \<Rightarrow> int32 \<Rightarrow> byte list" where
  "makeCommandPacket command rid =
     serialize \<lparr>requestID = rid, packetType = COMMANDTYPE, payload = command\<rparr>"

section \<open>Transport, frame receiver, login and the interactive loop\<close>

subsection \<open>The world outside the program\<close>

text \<open>
  Go's \<open>error\<close> values: \<open>io.EOF\<close>, an error built by \<open>fmt.Errorf\<close> with its
  message, and an error of the \<open>net\<close> or \<open>os\<close> package (a timeout, a socket
  failure) with its description.  A Go \<open>error\<close> that may be \<open>nil\<close> is an
  \<open>error option\<close>, \<open>None\<close> being \<open>nil\<close>.
\<close>

datatype error = EOF | Errorf string | OpError string

text \<open>
  The connection and the terminal are scripts of what the successive calls return.
  \<open>conn.Read(buf)\<close> returns \<open>(n, err)\<close>: the script gives the \<open>n\<close> bytes stored
  into \<open>buf\<close> (at most \<open>len(buf)\<close> of them) together with \<open>err\<close>; the
  \<open>io.Reader\<close> contract allows \<open>n > 0\<close> with a non-nil \<open>err\<close>.
  \<open>conn.Write\<close> returns its error, and \<open>sent\<close> logs the packets handed to it.
  \<open>slack\<close> gives, for each received buffer that is parsed, the bytes that lie
  between its length and its capacity: how far \<open>bytes.Buffer\<close> over-allocates is
  not decided by this program.  \<open>printed\<close> logs the calls of \<open>colorPrint\<close> with
  their arguments; what \<open>colorPrint\<close> does with the text is outside the model,
  and so are the prompts written to the terminal.
\<close>

type_synonym read_result = "byte list \<times> error option"

record world =
  netReads :: "read_result list"
  netWrites :: "error option list"
  slack :: "byte list list"
  sent :: "byte list list"
  printed :: "(byte list \<times> bool) list"

text \<open>
  A run of the program against finite scripts either needs a call that the script
  does not cover (\<open>Starved\<close>: the run is still going on where the script ends), or
  dies of a run-time panic, or returns.
\<close>

datatype 'a run = Starved | Panicked panic | Returned 'a

subsection \<open>sendPacket and receivePacket\<close>

definition sendPacket :: "byte list \<Rightarrow> world \<Rightarrow> (error option \<times> world) run" where
  "sendPacket packet w =
     (case netWrites w of
        [] \<Rightarrow> Starved
      | err # rest \<Rightarrow> Returned (err, w\<lparr>netWrites := rest, sent := sent w @ [packet]\<rparr>))"

text \<open>
  The loop of \<open>receivePacket\<close>, with the accumulator \<open>received\<close> and the reads still
  to come.  Each round looks at one read \<open>(n, err)\<close>, in the order of the source:
  \<open>err == io.EOF || n == 0\<close> leaves the loop without writing the chunk;
  any other non-nil \<open>err\<close> returns \<open>nil, err\<close>; otherwise \<open>buf[:n]\<close> is appended
  and \<open>n < len(buf)\<close> leaves the loop.  The returned pair is Go's
  \<open>([]byte, error)\<close>.
\<close>

fun receiveLoop ::
  "byte list \<Rightarrow> read_result list \<Rightarrow> ((byte list \<times> error option) \<times> read_result list) run"
where
  "receiveLoop received [] = Starved"
| "receiveLoop received ((chunk, err) # rest) =
     (if err = Some EOF \<or> length chunk = 0 then Returned ((received, None), rest)
      else if err \<noteq> None then Returned (([], err), rest)
      else if length chunk < MAXRECVSIZE then Returned ((received @ chunk, None), rest)
      else receiveLoop (received @ chunk) rest)"

definition receivePacket :: "world \<Rightarrow> ((byte list \<times> error option) \<times> world) run" where
  "receivePacket w =
     (case receiveLoop [] (netReads w) of
        Starved \<Rightarrow> Starved
      | Panicked p \<Rightarrow> Panicked p
      | Returned (result, rest) \<Rightarrow> Returned (result, w\<lparr>netReads := rest\<rparr>))"

text \<open>
  The slice that \<open>parsePacket\<close> is given: the received bytes, with the spare
  capacity that the world attaches to this buffer (none once the script is used up).
\<close>

definition withCapacity :: "byte list \<Rightarrow> world \<Rightarrow> slice \<times> world" where
  "withCapacity bs w =
     (case slack w of
        [] \<Rightarrow> (\<lparr>elems = bs, spare = []\<rparr>, w)
      | s # rest \<Rightarrow> (\<lparr>elems = bs, spare = s\<rparr>, w\<lparr>slack := rest\<rparr>))"

subsection \<open>login\<close>

definition login :: "byte list \<Rightarrow> int32 \<Rightarrow> world \<Rightarrow> (error option \<times> world) run" where
  "login password rid w =
     (case sendPacket (makeLoginPacket password rid) w of
        Starved \<Rightarrow> Starved
      | Panicked p \<Rightarrow> Panicked p
      | Returned (err, w1) \<Rightarrow>
          if err \<noteq> None then Returned (err, w1)
          else
            (case receivePacket w1 of
               Starved \<Rightarrow> Starved
             | Panicked p \<Rightarrow> Panicked p
             | Returned ((response, err), w2) \<Rightarrow>
                 if err \<noteq> None then Returned (err, w2)
                 else
                   (let (data, w3) = withCapacity response w2 in
                    case parsePacket data of
                      Inl p \<Rightarrow> Panicked p
                    | Inr parsedResponse \<Rightarrow>
                        if requestID parsedResponse = rid \<and>
                           packetType parsedResponse = COMMANDTYPE
                        then Returned (None, w3)
                        else if requestID parsedResponse = - 1
                        then Returned (Some (Errorf ''Password is incorrect''), w3)
                        else Returned (Some (Errorf ''Login failed''), w3))))"

subsection \<open>interactiveMode\<close>

text \<open>
  The goroutine that reads commands.  \<open>reader.ReadString\<close> returns
  \<open>(input, err)\<close>; the terminal is the script of these results.
  \<open>strings.TrimSpace\<close> is a parameter.  The value returned is the one the goroutine
  sends on \<open>errchan\<close> before it ends.  The \<open>err\<close> that \<open>receivePacket\<close> returns
  is assigned and not looked at.
\<close>

type_synonym stdin_result = "byte list \<times> error option"

fun commandReader ::
  "(byte list \<Rightarrow> byte list) \<Rightarrow> int32 \<Rightarrow> bool \<Rightarrow> stdin_result list \<Rightarrow> world \<Rightarrow>
   (error option \<times> world) run"
where
  "commandReader trimSpace rid colored [] w = Starved"
| "commandReader trimSpace rid colored ((input, err) # later) w =
     (if err = Some EOF then Returned (None, w)
      else if err \<noteq> None then Returned (err, w)
      else
        (case sendPacket (makeCommandPacket (trimSpace input) rid) w of
           Starved \<Rightarrow> Starved
         | Panicked p \<Rightarrow> Panicked p
         | Returned (err, w1) \<Rightarrow>
             if err \<noteq> None then Returned (err, w1)
             else
               (case receivePacket w1 of
                  Starved \<Rightarrow> Starved
                | Panicked p \<Rightarrow> Panicked p
                | Returned ((responsePacket, err), w2) \<Rightarrow>
                    if length responsePacket = 0
                    then Returned (Some (Errorf ''No response received''), w2)
                    else
                      (let (data, w3) = withCapacity responsePacket w2 in
                       case parsePacket data of
                         Inl p \<Rightarrow> Panicked p
                       | Inr response \<Rightarrow>
                           commandReader trimSpace rid colored later
                             (w3\<lparr>printed := printed w3 @ [(payload response, colored)]\<rparr>)))))"

text \<open>
  \<open>interactiveMode\<close> returns the first value that arrives on \<open>errchan\<close>.  Two
  goroutines send: the signal handler sends \<open>nil\<close>, the command reader sends its
  outcome.  Which of them is first is the scheduler's and the user's choice, given
  here as \<open>first_sender\<close>.
\<close>

datatype first_sender = SignalHandler | CommandReader

definition interactiveMode ::
  "first_sender \<Rightarrow> (byte list \<Rightarrow> byte list) \<Rightarrow> stdin_result list \<Rightarrow>
   int32 \<Rightarrow> world \<Rightarrow> bool \<Rightarrow> (error option) run"
where
  "interactiveMode first trimSpace terminal rid w colored =
     (case first of
        SignalHandler \<Rightarrow> Returned None
      | CommandReader \<Rightarrow>
          (case commandReader trimSpace rid colored terminal w of
             Starved \<Rightarrow> Starved
           | Panicked p \<Rightarrow> Panicked p
           | Returned (err, w') \<Rightarrow> Returned err))"

section \<open>Properties of the codec\<close>

subsection \<open>Little-endian fields\<close>

lemma uint32le_putUint32: "uint32le (putUint32 v) = v"
proof (rule bit_word_eqI)
  fix n assume n: "n < LENGTH(32)"
  consider "n < 8" | "8 \<le> n" "n < 16" | "16 \<le> n" "n < 24" | "24 \<le> n" "n < 32"
    using n by fastforce
  then show "bit (uint32le (putUint32 v)) n = bit v n"
  proof cases
    case 1 then show ?thesis by (auto simp add: uint32le_def putUint32_def bit_simps)
  next
    case 2 then show ?thesis by (auto simp add: uint32le_def putUint32_def bit_simps)
  next
    case 3 then show ?thesis by (auto simp add: uint32le_def putUint32_def bit_simps)
  next
    case 4 then show ?thesis by (auto simp add: uint32le_def putUint32_def bit_simps)
  qed
qed

lemma length_putUint32: "length (putUint32 v) = 4"
  by (simp add: putUint32_def)

lemma binaryRead_putUint32: "binaryRead (putUint32 v @ rest) old = (v, rest)"
  by (simp add: binaryRead_def length_putUint32 uint32le_putUint32)

lemma binaryRead_long: "4 \<le> length r \<Longrightarrow> binaryRead r v = (uint32le (take 4 r), drop 4 r)"
  by (simp add: binaryRead_def)

lemma unat_byte_of: "unat (ucast (drop_bit k (v :: int32)) :: byte) = unat v div 2 ^ k mod 256"
proof -
  have "unat (ucast (drop_bit k v) :: byte) = take_bit 8 (drop_bit k (unat v))"
    by (simp only: unsigned_ucast_eq unat_drop_bit_eq) simp
  also have "\<dots> = unat v div 2 ^ k mod 256"
    by (simp add: drop_bit_eq_div take_bit_eq_mod)
  finally show ?thesis .
qed

lemma putUint32_digits: "map unat (putUint32 v) = littleEndian4 (unat v)"
  using unat_byte_of [of 0 v] unat_byte_of [of 8 v] unat_byte_of [of 16 v] unat_byte_of [of 24 v]
  by (simp add: putUint32_def littleEndian4_def)

lemma sint_word_of_nat_small:
  assumes "k < 2 ^ 31"
  shows "sint (word_of_nat k :: int32) = int k"
proof -
  have "sint (word_of_nat k :: int32) = signed_take_bit 31 (int k)"
    by (simp add: signed_of_nat)
  also have "\<dots> = int k"
    using assms by (intro signed_take_bit_int_eq_self) auto
  finally show ?thesis by simp
qed

lemma sint_packetSize_plus_2:
  assumes "n < 2 ^ 31 - 12"
  shows "sint (word_of_nat (4 + 4 + n + 2) + 2 :: int32) = int n + 12"
proof -
  have "(word_of_nat (4 + 4 + n + 2) + 2 :: int32) = word_of_nat (n + 12)"
    by simp
  moreover have "n + 12 < 2 ^ 31" using assms by simp
  ultimately show ?thesis
    using sint_word_of_nat_small [of "n + 12"] by (simp only: of_nat_add of_nat_numeral)
qed

subsection \<open>serialize\<close>

lemma length_serialize: "length (serialize rp) = length (payload rp) + 14"
  by (simp add: serialize_def Let_def length_putUint32)

lemma serialize_digits:
  "map unat (serialize rp) =
     littleEndian4 ((8 + length (payload rp) + 2) mod 2 ^ 32) @
     littleEndian4 (unat (requestID rp)) @ littleEndian4 (unat (packetType rp)) @
     map unat (payload rp) @ [0, 0]"
proof -
  have "unat (word_of_nat (4 + 4 + length (payload rp) + 2) :: int32) =
        (8 + length (payload rp) + 2) mod 2 ^ 32"
    by (simp only: unat_of_nat) simp
  then show ?thesis
    by (simp add: serialize_def putUint32_digits Let_def del: of_nat_add of_nat_numeral)
qed

lemma size_field_serialize:
  "uint32le (take 4 (serialize rp)) = word_of_nat (8 + length (payload rp) + 2)"
  by (simp add: serialize_def Let_def length_putUint32 uint32le_putUint32)

text \<open>
  Claim C2.  For every packet, \<open>serialize\<close> produces \<open>len(payload) + 14\<close> bytes: the
  four little-endian digits of the size \<open>8 + len(payload) + 2\<close> (as the 32-bit field
  holds it), the four little-endian digits of the request id, those of the packet
  type, the payload bytes as they are, and two zero bytes.  Read back as a signed
  32-bit little-endian number, the size field is \<open>8 + len(payload) + 2\<close> whenever that
  number fits an \<open>int32\<close>.
\<close>

theorem serialize_wire_layout:
  "length (serialize rp) = length (payload rp) + 14 \<and>
   map unat (serialize rp) =
     littleEndian4 ((8 + length (payload rp) + 2) mod 2 ^ 32) @
     littleEndian4 (unat (requestID rp)) @ littleEndian4 (unat (packetType rp)) @
     map unat (payload rp) @ [0, 0] \<and>
   (8 + length (payload rp) + 2 < 2 ^ 31 \<longrightarrow>
     sint (uint32le (take 4 (serialize rp))) = int (8 + length (payload rp) + 2))"
proof (intro conjI impI)
  show "length (serialize rp) = length (payload rp) + 14"
    by (rule length_serialize)
  show "map unat (serialize rp) =
     littleEndian4 ((8 + length (payload rp) + 2) mod 2 ^ 32) @
     littleEndian4 (unat (requestID rp)) @ littleEndian4 (unat (packetType rp)) @
     map unat (payload rp) @ [0, 0]"
    by (rule serialize_digits)
  assume "8 + length (payload rp) + 2 < 2 ^ 31"
  then show "sint (uint32le (take 4 (serialize rp))) = int (8 + length (payload rp) + 2)"
    by (simp only: size_field_serialize sint_word_of_nat_small)
qed

theorem serialize_wire_layout_witness:
  "length (serialize \<lparr>requestID = - 1, packetType = 3, payload = [104, 105]\<rparr>) = 16 \<and>
   map unat (serialize \<lparr>requestID = - 1, packetType = 3, payload = [104, 105]\<rparr>) =
     [12, 0, 0, 0, 255, 255, 255, 255, 3, 0, 0, 0, 104, 105, 0, 0] \<and>
   sint (uint32le (take 4 (serialize \<lparr>requestID = - 1, packetType = 3, payload = [104, 105]\<rparr>))) = 12"
  using serialize_wire_layout [of "\<lparr>requestID = - 1, packetType = 3, payload = [104, 105]\<rparr>"]
  by (simp add: littleEndian4_def unsigned_minus_1_eq_mask mask_eq_exp_minus_1)

subsection \<open>parsePacket\<close>

lemma parsePacket_serialize:
  assumes "length (payload rp) < 2 ^ 31 - 12"
  shows "parsePacket \<lparr>elems = serialize rp, spare = sp\<rparr> = Inr rp"
proof -
  let ?n = "length (payload rp)"
  have hi: "sint (word_of_nat (4 + 4 + ?n + 2) + 2 :: int32) = int ?n + 12"
    using assms by (rule sint_packetSize_plus_2)
  have sl: "sliceExpr \<lparr>elems = serialize rp, spare = sp\<rparr> 12 (int ?n + 12) = Inr (payload rp)"
    by (simp add: sliceExpr_def length_serialize serialize_def Let_def length_putUint32)
  show ?thesis
    unfolding parsePacket_def
    apply (subst serialize_def)
    apply (simp only: Let_def slice.simps binaryRead_putUint32 prod.case hi sl)
    apply simp
    done
qed

text \<open>
  Claim C1.  For every packet whose payload is at most 4096 bytes long, parsing the
  serialized bytes gives back the packet: the same request id, packet type and
  payload.  This holds whatever spare capacity lies behind the serialized slice.
\<close>

theorem parse_serialize_roundtrip:
  "length (payload rp) \<le> 4096 \<Longrightarrow> parsePacket \<lparr>elems = serialize rp, spare = sp\<rparr> = Inr rp"
  by (rule parsePacket_serialize) simp

theorem parse_serialize_roundtrip_witness:
  "length (payload \<lparr>requestID = 7, packetType = 2, payload = [108, 105, 115, 116]\<rparr>) \<le> 4096 \<and>
   parsePacket
     \<lparr>elems = serialize \<lparr>requestID = 7, packetType = 2, payload = [108, 105, 115, 116]\<rparr>,
      spare = [0, 0]\<rparr> =
   Inr \<lparr>requestID = 7, packetType = 2, payload = [108, 105, 115, 116]\<rparr>"
  using parse_serialize_roundtrip
    [of "\<lparr>requestID = 7, packetType = 2, payload = [108, 105, 115, 116]\<rparr>" "[0, 0]"]
  by simp

lemma parsePacket_eq:
  assumes "12 \<le> length (elems data)"
  shows "parsePacket data =
     (case sliceExpr data 12 (payloadEnd (elems data)) of
        Inl p \<Rightarrow> Inl p
      | Inr s \<Rightarrow> Inr \<lparr>requestID = uint32le (take 4 (drop 4 (elems data))),
                      packetType = uint32le (take 4 (drop 8 (elems data))), payload = s\<rparr>)"
  using assms
  by (simp add: parsePacket_def payloadEnd_def declaredSize_def binaryRead_long Let_def)

lemma sliceExpr_within:
  assumes "12 \<le> hi" "hi \<le> int (length (elems data))"
  shows "sliceExpr data 12 hi = Inr (take (nat hi - 12) (drop 12 (elems data)))"
  using assms by (simp add: sliceExpr_def)

lemma parsePacket_Inr_bounds:
  assumes "parsePacket data = Inr p"
  shows "12 \<le> payloadEnd (elems data) \<and>
         payloadEnd (elems data) \<le> int (length (elems data) + length (spare data))"
  using assms
  by (auto simp add: parsePacket_def payloadEnd_def declaredSize_def sliceExpr_def Let_def
      split: prod.splits if_splits)

lemma payloadEnd_prefix:
  assumes "4 \<le> k" "k \<le> length bs"
  shows "payloadEnd (take k bs @ rest) = payloadEnd bs"
  using assms by (simp add: payloadEnd_def declaredSize_def binaryRead_def)

lemma field_in_prefix:
  assumes "j + 4 \<le> k" "k \<le> length bs"
  shows "take 4 (drop j (take k bs @ rest)) = take 4 (drop j bs)"
proof -
  have "drop j (take k bs @ rest) = take (k - j) (drop j bs) @ rest"
    using assms by (simp add: drop_take)
  moreover have "4 \<le> length (take (k - j) (drop j bs))"
    using assms by simp
  ultimately show ?thesis
    using assms by (simp add: min_def)
qed

text \<open>
  Claim C5, as the code has it.  The claim's precondition (at least 12 bytes, and at
  least the declared size plus 2) does not keep \<open>data[12 : packetSize+2]\<close> in range:
  the upper index must also be at least 12.  With \<open>12 \<le> packetSize+2 \<le> len(data)\<close>,
  the sum taken as Go takes it in \<open>int32\<close>, \<open>parsePacket\<close> does not panic and
  returns the header fields with the payload \<open>data[12 .. packetSize+2)\<close>.  And there
  is an input shorter than its declared size plus 2 on which the slice expression
  is out of range and \<open>parsePacket\<close> panics.
\<close>

theorem parsePacket_bounds:
  "(12 \<le> payloadEnd (elems data) \<and> payloadEnd (elems data) \<le> int (length (elems data)) \<longrightarrow>
      parsePacket data =
        Inr \<lparr>requestID = uint32le (take 4 (drop 4 (elems data))),
             packetType = uint32le (take 4 (drop 8 (elems data))),
             payload = take (nat (payloadEnd (elems data)) - 12) (drop 12 (elems data))\<rparr>) \<and>
   (\<exists>short. int (length (elems short)) < payloadEnd (elems short) \<and>
      parsePacket short = Inl SliceBoundsOutOfRange)"
proof (intro conjI impI)
  assume h: "12 \<le> payloadEnd (elems data) \<and> payloadEnd (elems data) \<le> int (length (elems data))"
  then have len: "12 \<le> length (elems data)" by linarith
  show "parsePacket data =
        Inr \<lparr>requestID = uint32le (take 4 (drop 4 (elems data))),
             packetType = uint32le (take 4 (drop 8 (elems data))),
             payload = take (nat (payloadEnd (elems data)) - 12) (drop 12 (elems data))\<rparr>"
    using h by (simp add: parsePacket_eq [OF len] sliceExpr_within)
next
  let ?short = "\<lparr>elems = [11, 0, 0, 0, 7, 0, 0, 0, 0, 0, 0, 0] :: byte list, spare = []\<rparr>"
  have "int (length (elems ?short)) < payloadEnd (elems ?short) \<and>
        parsePacket ?short = Inl SliceBoundsOutOfRange"
    by (simp add: payloadEnd_def declaredSize_def parsePacket_def binaryRead_def uint32le_def
        sliceExpr_def)
  then show "\<exists>short. int (length (elems short)) < payloadEnd (elems short) \<and>
      parsePacket short = Inl SliceBoundsOutOfRange"
    by (rule exI)
qed

theorem parsePacket_bounds_witness:
  "12 \<le> payloadEnd (elems \<lparr>elems = [11, 0, 0, 0, 7, 0, 0, 0, 0, 0, 0, 0, 65, 0, 0], spare = []\<rparr>) \<and>
   payloadEnd (elems \<lparr>elems = [11, 0, 0, 0, 7, 0, 0, 0, 0, 0, 0, 0, 65, 0, 0], spare = []\<rparr>) \<le> 15 \<and>
   parsePacket \<lparr>elems = [11, 0, 0, 0, 7, 0, 0, 0, 0, 0, 0, 0, 65, 0, 0], spare = []\<rparr> =
     Inr \<lparr>requestID = 7, packetType = 0, payload = [65]\<rparr>"
  using parsePacket_bounds [of "\<lparr>elems = [11, 0, 0, 0, 7, 0, 0, 0, 0, 0, 0, 0, 65, 0, 0], spare = []\<rparr>"]
  by (simp add: payloadEnd_def declaredSize_def binaryRead_def uint32le_def)

text \<open>
  The claim as stated fails on twelve zero bytes: the input is 12 bytes long, its
  declared size plus 2 is 2, and \<open>data[12 : 2]\<close> panics.
\<close>

theorem parsePacket_precondition_counterexample:
  "12 \<le> length (elems \<lparr>elems = [0, 0, 0, 0, 0, 0, 0, 0, 0, 0, 0, 0], spare = []\<rparr>) \<and>
   sint (declaredSize (elems \<lparr>elems = [0, 0, 0, 0, 0, 0, 0, 0, 0, 0, 0, 0], spare = []\<rparr>)) + 2 \<le>
     int (length (elems \<lparr>elems = [0, 0, 0, 0, 0, 0, 0, 0, 0, 0, 0, 0], spare = []\<rparr>)) \<and>
   parsePacket \<lparr>elems = [0, 0, 0, 0, 0, 0, 0, 0, 0, 0, 0, 0], spare = []\<rparr> =
     Inl SliceBoundsOutOfRange"
  by (simp add: declaredSize_def parsePacket_def binaryRead_def uint32le_def sliceExpr_def)

text \<open>
  Claim C10.  When an input is long enough to parse, the result is decided by its
  first \<open>packetSize+2\<close> bytes.  Whatever follows them (the two padding bytes, any
  trailing bytes, the spare capacity) can be replaced by anything, or left out, and
  \<open>parsePacket\<close> returns the same packet: nothing there is examined, and the
  declared size is not compared with the length of the input.
\<close>

theorem parsePacket_reads_prefix_only:
  assumes "parsePacket \<lparr>elems = bs, spare = []\<rparr> = Inr p"
  shows "parsePacket \<lparr>elems = take (nat (payloadEnd bs)) bs @ rest, spare = sp\<rparr> = Inr p"
proof -
  let ?k = "nat (payloadEnd bs)"
  let ?bs' = "take ?k bs @ rest"
  have b: "12 \<le> payloadEnd bs" "payloadEnd bs \<le> int (length bs)"
    using parsePacket_Inr_bounds [OF assms] by simp_all
  then have k: "12 \<le> ?k" "?k \<le> length bs" by linarith+
  have len: "12 \<le> length bs" using k by linarith
  have len': "12 \<le> length ?bs'" using k by simp
  have e: "payloadEnd ?bs' = payloadEnd bs"
    using k by (intro payloadEnd_prefix) linarith+
  have p: "p = \<lparr>requestID = uint32le (take 4 (drop 4 bs)),
                 packetType = uint32le (take 4 (drop 8 bs)),
                 payload = take (?k - 12) (drop 12 bs)\<rparr>"
    using assms b parsePacket_eq [of "\<lparr>elems = bs, spare = []\<rparr>"] len
    by (simp add: sliceExpr_within)
  have s: "sliceExpr \<lparr>elems = ?bs', spare = sp\<rparr> 12 (payloadEnd bs) =
           Inr (take (?k - 12) (drop 12 bs))"
    using b k by (simp add: sliceExpr_def min_def drop_take)
  have h1: "take 4 (drop 4 ?bs') = take 4 (drop 4 bs)"
    using k by (intro field_in_prefix) linarith+
  have h2: "take 4 (drop 8 ?bs') = take 4 (drop 8 bs)"
    using k by (intro field_in_prefix) linarith+
  show ?thesis
    using parsePacket_eq [of "\<lparr>elems = ?bs', spare = sp\<rparr>"] len'
    by (simp only: slice.simps e s h1 h2 p sum.case)
qed

theorem parsePacket_reads_prefix_only_witness:
  "parsePacket \<lparr>elems = [11, 0, 0, 0, 7, 0, 0, 0, 0, 0, 0, 0, 65, 0, 0], spare = []\<rparr> =
     Inr \<lparr>requestID = 7, packetType = 0, payload = [65]\<rparr> \<and>
   parsePacket \<lparr>elems = [11, 0, 0, 0, 7, 0, 0, 0, 0, 0, 0, 0, 65, 200, 201, 202], spare = [9]\<rparr> =
     Inr \<lparr>requestID = 7, packetType = 0, payload = [65]\<rparr>"
proof -
  let ?bs = "[11, 0, 0, 0, 7, 0, 0, 0, 0, 0, 0, 0, 65, 0, 0] :: byte list"
  have h: "parsePacket \<lparr>elems = ?bs, spare = []\<rparr> =
             Inr \<lparr>requestID = 7, packetType = 0, payload = [65]\<rparr>"
    by (simp add: parsePacket_def binaryRead_def uint32le_def sliceExpr_def)
  have e: "nat (payloadEnd ?bs) = 13"
    by (simp add: payloadEnd_def declaredSize_def binaryRead_def uint32le_def)
  show ?thesis
    using h parsePacket_reads_prefix_only [OF h, of "[200, 201, 202]" "[9]"]
    by (simp add: e)
qed

section \<open>Properties of the frame receiver\<close>





section \<open>Properties of login\<close>

lemma login_after_parse:
  assumes "sendPacket (makeLoginPacket password rid) w = Returned (None, w1)"
    and "receivePacket w1 = Returned ((response, None), w2)"
    and "withCapacity response w2 = (data, w3)"
    and "parsePacket data = Inr p"
  shows "login password rid w =
     Returned
       ((if requestID p = rid \<and> packetType p = COMMANDTYPE then None
         else if requestID p = - 1 then Some (Errorf ''Password is incorrect'')
         else Some (Errorf ''Login failed'')), w3)"
  using assms by (simp add: login_def)

text \<open>
  Claim C3.  Once the login packet is sent and the reply is received and parsed into
  \<open>p\<close>, \<open>login\<close> returns \<open>nil\<close> exactly when the reply's request id is the one sent
  and its packet type is 2 (\<open>COMMANDTYPE\<close>).  Otherwise, when the reply's request id
  is \<open>-1\<close>, it returns the authentication error, whose text in the code is
  \<open>Password is incorrect\<close>; in every remaining case it returns the protocol error,
  whose text in the code is \<open>Login failed\<close>.
\<close>

theorem login_verdict:
  assumes "sendPacket (makeLoginPacket password rid) w = Returned (None, w1)"
    and "receivePacket w1 = Returned ((response, None), w2)"
    and "withCapacity response w2 = (data, w3)"
    and "parsePacket data = Inr p"
  shows "(login password rid w = Returned (None, w3) \<longleftrightarrow>
            requestID p = rid \<and> packetType p = 2) \<and>
         (\<not> (requestID p = rid \<and> packetType p = 2) \<and> requestID p = - 1 \<longrightarrow>
            login password rid w = Returned (Some (Errorf ''Password is incorrect''), w3)) \<and>
         (\<not> (requestID p = rid \<and> packetType p = 2) \<and> requestID p \<noteq> - 1 \<longrightarrow>
            login password rid w = Returned (Some (Errorf ''Login failed''), w3))"
  using login_after_parse [OF assms] by (simp add: COMMANDTYPE_def)

theorem login_verdict_witness:
  "login [112, 119] 7
     \<lparr>netReads = [([10, 0, 0, 0, 255, 255, 255, 255, 2, 0, 0, 0, 0, 0], None)],
      netWrites = [None], slack = [], sent = [], printed = []\<rparr> =
   Returned (Some (Errorf ''Password is incorrect''),
     \<lparr>netReads = [], netWrites = [], slack = [],
      sent = [makeLoginPacket [112, 119] 7], printed = []\<rparr>)"
proof -
  let ?reply = "[10, 0, 0, 0, 255, 255, 255, 255, 2, 0, 0, 0, 0, 0] :: byte list"
  let ?w = "\<lparr>netReads = [(?reply, None)], netWrites = [None], slack = [], sent = [],
             printed = []\<rparr>"
  let ?w1 = "\<lparr>netReads = [(?reply, None)], netWrites = [], slack = [],
              sent = [makeLoginPacket [112, 119] 7], printed = []\<rparr>"
  let ?w2 = "\<lparr>netReads = [], netWrites = [], slack = [],
              sent = [makeLoginPacket [112, 119] 7], printed = []\<rparr>"
  have h1: "sendPacket (makeLoginPacket [112, 119] 7) ?w = Returned (None, ?w1)"
    by (simp add: sendPacket_def)
  have h2: "receivePacket ?w1 = Returned ((?reply, None), ?w2)"
    by (simp add: receivePacket_def MAXRECVSIZE_def)
  have h3: "withCapacity ?reply ?w2 = (\<lparr>elems = ?reply, spare = []\<rparr>, ?w2)"
    by (simp add: withCapacity_def)
  have h4: "parsePacket \<lparr>elems = ?reply, spare = []\<rparr> =
              Inr \<lparr>requestID = - 1, packetType = 2, payload = []\<rparr>"
    by (simp add: parsePacket_def binaryRead_def uint32le_def sliceExpr_def)
  show ?thesis
    using login_verdict [OF h1 h2 h3 h4] by simp
qed

text \<open>
  Claim C9.  The success test comes first: when the request id sent is itself \<open>-1\<close>
  and the reply carries request id \<open>-1\<close> with packet type 2, \<open>login\<close> returns
  \<open>nil\<close>, not the error for a rejected password.
\<close>

theorem login_sentinel_as_own_id:
  assumes "sendPacket (makeLoginPacket password (- 1)) w = Returned (None, w1)"
    and "receivePacket w1 = Returned ((response, None), w2)"
    and "withCapacity response w2 = (data, w3)"
    and "parsePacket data = Inr \<lparr>requestID = - 1, packetType = 2, payload = pl\<rparr>"
  shows "login password (- 1) w = Returned (None, w3)"
  using login_after_parse [OF assms] by (simp add: COMMANDTYPE_def)

theorem login_sentinel_as_own_id_witness:
  "login [112, 119] (- 1)
     \<lparr>netReads = [([10, 0, 0, 0, 255, 255, 255, 255, 2, 0, 0, 0, 0, 0], None)],
      netWrites = [None], slack = [], sent = [], printed = []\<rparr> =
   Returned (None,
     \<lparr>netReads = [], netWrites = [], slack = [],
      sent = [makeLoginPacket [112, 119] (- 1)], printed = []\<rparr>)"
proof -
  let ?reply = "[10, 0, 0, 0, 255, 255, 255, 255, 2, 0, 0, 0, 0, 0] :: byte list"
  let ?w = "\<lparr>netReads = [(?reply, None)], netWrites = [None], slack = [], sent = [],
             printed = []\<rparr>"
  let ?w1 = "\<lparr>netReads = [(?reply, None)], netWrites = [], slack = [],
              sent = [makeLoginPacket [112, 119] (- 1)], printed = []\<rparr>"
  let ?w2 = "\<lparr>netReads = [], netWrites = [], slack = [],
              sent = [makeLoginPacket [112, 119] (- 1)], printed = []\<rparr>"
  have h1: "sendPacket (makeLoginPacket [112, 119] (- 1)) ?w = Returned (None, ?w1)"
    by (simp add: sendPacket_def)
  have h2: "receivePacket ?w1 = Returned ((?reply, None), ?w2)"
    by (simp add: receivePacket_def MAXRECVSIZE_def)
  have h3: "withCapacity ?reply ?w2 = (\<lparr>elems = ?reply, spare = []\<rparr>, ?w2)"
    by (simp add: withCapacity_def)
  have h4: "parsePacket \<lparr>elems = ?reply, spare = []\<rparr> =
              Inr \<lparr>requestID = - 1, packetType = 2, payload = []\<rparr>"
    by (simp add: parsePacket_def binaryRead_def uint32le_def sliceExpr_def)
  show ?thesis
    using login_sentinel_as_own_id [OF h1 h2 h3 h4] by simp
qed

section \<open>Properties of the interactive loop\<close>

text \<open>
  Every exchange of the loop is the head of a call of \<open>commandReader\<close>: after an
  exchange whose reply parses, the loop goes on with the rest of the terminal script
  and the payload handed to \<open>colorPrint\<close>.
\<close>

lemma commandReader_next_exchange:
  assumes "sendPacket (makeCommandPacket (trimSpace input) rid) w = Returned (None, w1)"
    and "receivePacket w1 = Returned ((responsePacket, err), w2)"
    and "responsePacket \<noteq> []"
    and "withCapacity responsePacket w2 = (data, w3)"
    and "parsePacket data = Inr response"
  shows "commandReader trimSpace rid colored ((input, None) # later) w =
         commandReader trimSpace rid colored later
           (w3\<lparr>printed := printed w3 @ [(payload response, colored)]\<rparr>)"
  using assms by simp

text \<open>
  Claim C7.  In an exchange, once the command is sent, an empty reply buffer from
  \<open>receivePacket\<close> ends the loop: the command reader signals the error whose text
  in the code is \<open>No response received\<close>, and \<open>interactiveMode\<close> returns it when
  this signal is the first to arrive.
\<close>

theorem empty_reply_ends_loop:
  assumes "sendPacket (makeCommandPacket (trimSpace input) rid) w = Returned (None, w1)"
    and "receivePacket w1 = Returned (([], err), w2)"
  shows "commandReader trimSpace rid colored ((input, None) # later) w =
           Returned (Some (Errorf ''No response received''), w2) \<and>
         interactiveMode CommandReader trimSpace ((input, None) # later) rid w colored =
           Returned (Some (Errorf ''No response received''))"
  using assms by (simp add: interactiveMode_def)

theorem empty_reply_ends_loop_witness:
  "commandReader (\<lambda>s. s) 7 True [([108, 105, 115, 116], None), ([115, 97, 121], None)]
     \<lparr>netReads = [([], Some EOF)], netWrites = [None], slack = [], sent = [],
      printed = []\<rparr> =
   Returned (Some (Errorf ''No response received''),
     \<lparr>netReads = [], netWrites = [], slack = [],
      sent = [makeCommandPacket [108, 105, 115, 116] 7], printed = []\<rparr>) \<and>
   interactiveMode CommandReader (\<lambda>s. s)
     [([108, 105, 115, 116], None), ([115, 97, 121], None)] 7
     \<lparr>netReads = [([], Some EOF)], netWrites = [None], slack = [], sent = [],
      printed = []\<rparr> True =
   Returned (Some (Errorf ''No response received''))"
proof -
  let ?w = "\<lparr>netReads = [([], Some EOF)], netWrites = [None], slack = [], sent = [],
             printed = []\<rparr>"
  let ?w1 = "\<lparr>netReads = [([], Some EOF)], netWrites = [], slack = [],
              sent = [makeCommandPacket [108, 105, 115, 116] 7], printed = []\<rparr>"
  let ?w2 = "\<lparr>netReads = [], netWrites = [], slack = [],
              sent = [makeCommandPacket [108, 105, 115, 116] 7], printed = []\<rparr>"
  have h1: "sendPacket (makeCommandPacket ((\<lambda>s. s) [108, 105, 115, 116]) 7) ?w =
              Returned (None, ?w1)"
    by (simp add: sendPacket_def)
  have h2: "receivePacket ?w1 = Returned (([], None), ?w2)"
    by (simp add: receivePacket_def)
  show ?thesis
    using h1 h2
      empty_reply_ends_loop [of "\<lambda>s. s" "[108, 105, 115, 116]" 7 ?w ?w1 None ?w2 True
        "[([115, 97, 121], None)]"]
    by simp
qed

text \<open>
  Claim C8.  When the next read of the terminal reports end-of-input, the command
  reader signals \<open>nil\<close> and leaves the world as it is, and \<open>interactiveMode\<close>
  returns \<open>nil\<close>, whichever goroutine signals first.
\<close>

theorem end_of_input_is_graceful:
  "commandReader trimSpace rid colored ((input, Some EOF) # later) w = Returned (None, w) \<and>
   interactiveMode first trimSpace ((input, Some EOF) # later) rid w colored = Returned None"
  by (cases first) (simp_all add: interactiveMode_def)

text \<open>
  Claim C6 does not hold of the code.  The loop assigns the error that
  \<open>receivePacket\<close> returns and never looks at it; \<open>login\<close> checks the same error,
  and the loop itself checks the error of \<open>sendPacket\<close>.  A read of the reply that
  times out with no bytes makes \<open>receivePacket\<close> leave its loop with no error, and
  the exchange ends with \<open>No response received\<close>.  A read that brings a byte
  together with the timeout makes \<open>receivePacket\<close> return the timeout, and the
  exchange still ends with \<open>No response received\<close>.  The timeout never reaches the
  caller.
\<close>

theorem receive_error_not_propagated:
  "interactiveMode CommandReader (\<lambda>s. s) [([108, 105, 115, 116], None)] 7
     \<lparr>netReads = [([], Some (OpError ''i/o timeout''))], netWrites = [None],
      slack = [], sent = [], printed = []\<rparr> True =
   Returned (Some (Errorf ''No response received'')) \<and>
   receivePacket
     \<lparr>netReads = [([1], Some (OpError ''i/o timeout''))], netWrites = [],
      slack = [], sent = [], printed = []\<rparr> =
   Returned (([], Some (OpError ''i/o timeout'')),
     \<lparr>netReads = [], netWrites = [], slack = [], sent = [], printed = []\<rparr>) \<and>
   interactiveMode CommandReader (\<lambda>s. s) [([108, 105, 115, 116], None)] 7
     \<lparr>netReads = [([1], Some (OpError ''i/o timeout''))], netWrites = [None],
      slack = [], sent = [], printed = []\<rparr> True =
   Returned (Some (Errorf ''No response received''))"
  by (simp add: interactiveMode_def sendPacket_def receivePacket_def)

end
